theory Spec2Isabelle
  imports Main "HOL-Library.Multiset" "HOL-Library.List_Lexorder"
begin

section \<open>Organization MFE backend (backend/src/index.js)\<close>

text \<open>
  The backend is an Express application over one SQLite table, \<open>organizations\<close>,
  accessed through the synchronous better-sqlite3 driver. Every route handler runs to
  completion without yielding, so a handler is a function from the table before the
  request to a reply and the table after it.

  What the handlers take from their environment is passed in explicitly:
  \<^item> the value \<open>uuidv4()\<close> returns for the request,
  \<^item> the value \<open>datetime('now')\<close> yields for the request,
  \<^item> \<open>jwt.verify(\<cdot>, JWT_SECRET)\<close>, a function from the token to the decoded payload,
    with \<open>None\<close> where it throws (malformed, expired, wrong signature),
  \<^item> an oracle telling which of the SQL statements the handler executes (numbered
    from 0, in execution order) raises an I/O error in the driver.
\<close>

subsection \<open>Strings\<close>

text \<open>
  A JavaScript string is the list of its code points, as its iterator yields them: a
  surrogate pair is one code point above U+FFFF, and a surrogate outside a pair
  (U+D800..U+DFFF) stands for itself. Such strings reach the handlers in the token
  payload and in the JSON body (\<open>JSON.parse\<close> accepts the escape \<open>\\ud800\<close>).

  A \<open>TEXT\<close> value of SQLite is the list of the code points of its UTF-8 encoding,
  which holds no surrogate. SQLite's default \<open>BINARY\<close> collation compares the
  encodings bytewise, which is the lexicographic order of the code points; that is
  the order of \<open>HOL-Library.List_Lexorder\<close> on \<open>nat list\<close>.
\<close>

type_synonym jsstring = "nat list"

type_synonym sqltext = "nat list"

text \<open>
  The driver binds a JavaScript string as its UTF-8 encoding, in which every surrogate
  outside a pair becomes U+FFFD.
\<close>

definition is_surrogate :: "nat \<Rightarrow> bool" where
  "is_surrogate c \<longleftrightarrow> 55296 \<le> c \<and> c \<le> 57343"

definition utf8 :: "jsstring \<Rightarrow> sqltext" where
  "utf8 s = map (\<lambda>c. if is_surrogate c then 65533 else c) s"

definition ascii :: "string \<Rightarrow> jsstring" where
  "ascii s = map of_char s"

text \<open>
  \<open>String.prototype.trim\<close> removes the ECMAScript WhiteSpace and LineTerminator
  code points from both ends: TAB, LF, VT, FF, CR, SP, NBSP, U+1680, U+2000..U+200A,
  U+2028, U+2029, U+202F, U+205F, U+3000 and U+FEFF.
\<close>

definition is_white_space :: "nat \<Rightarrow> bool" where
  "is_white_space c \<longleftrightarrow>
     (9 \<le> c \<and> c \<le> 13) \<or> c = 32 \<or> c = 160 \<or> c = 5760 \<or> (8192 \<le> c \<and> c \<le> 8202) \<or>
     c = 8232 \<or> c = 8233 \<or> c = 8239 \<or> c = 8287 \<or> c = 12288 \<or> c = 65279"

definition trim :: "jsstring \<Rightarrow> jsstring" where
  "trim s = rev (dropWhile is_white_space (rev (dropWhile is_white_space s)))"

text \<open>\<open>s.replace(pat, '')\<close> with a string pattern: the first occurrence is removed.\<close>

fun replace_first :: "jsstring \<Rightarrow> jsstring \<Rightarrow> jsstring" where
  "replace_first pat [] = []"
| "replace_first pat (c # cs) =
     (if take (length pat) (c # cs) = pat then drop (length pat) (c # cs)
      else c # replace_first pat cs)"

subsection \<open>The table\<close>

text \<open>
  One row of \<open>organizations\<close>. \<open>org_id\<close> is the column \<open>id\<close> and \<open>zip_code\<close> the
  column \<open>zip\<close>. \<open>tenant_id\<close> and \<open>name\<close> are \<open>NOT NULL\<close>; \<open>updated_at\<close> is
  \<open>NULL\<close> until the first update. The table is the list of its rows in insertion
  order.
\<close>

record organization =
  org_id :: sqltext
  tenant_id :: sqltext
  name :: sqltext
  org_number :: sqltext
  address :: sqltext
  city :: sqltext
  zip_code :: sqltext
  phone :: sqltext
  email :: sqltext
  website :: sqltext
  description :: sqltext
  created_at :: sqltext
  updated_at :: "sqltext option"

type_synonym db = "organization list"

text \<open>\<open>id TEXT PRIMARY KEY\<close>: no two rows share an id.\<close>

definition primary_key :: "db \<Rightarrow> bool" where
  "primary_key rows \<longleftrightarrow> distinct (map org_id rows)"

datatype exn = SqliteIoError | SqliteConstraintNotNull | SqliteConstraintPrimaryKey

text \<open>
  The decoded token. \<open>tenantId\<close> is \<open>None\<close> when the payload carries no such claim
  (\<open>req.user.tenantId\<close> is \<open>undefined\<close>, which the driver binds as \<open>NULL\<close>).
\<close>

record user =
  tenantId :: "jsstring option"

text \<open>
  \<open>WHERE tenant_id = ?\<close>: the column is compared with the UTF-8 encoding of the bound
  string; a comparison with \<open>NULL\<close> selects no row.
\<close>

definition tenant_is :: "jsstring option \<Rightarrow> organization \<Rightarrow> bool" where
  "tenant_is t r \<longleftrightarrow> map_option utf8 t = Some (tenant_id r)"

text \<open>
  \<open>SELECT * FROM organizations WHERE tenant_id = ? ORDER BY name\<close>, \<open>.all(tenantId)\<close>.
  SQL leaves the order of rows with equal names open; the model keeps their
  insertion order.
\<close>

definition select_by_tenant :: "db \<Rightarrow> jsstring option \<Rightarrow> organization list" where
  "select_by_tenant rows t = sort_key name (filter (tenant_is t) rows)"

text \<open>
  \<open>SELECT * FROM organizations WHERE id = ? AND tenant_id = ?\<close>, \<open>.get(id, tenantId)\<close>.
  The ids the handlers bind come from \<open>uuidv4()\<close>, which returns ASCII characters, and
  from \<open>req.params.id\<close>, which Express decodes with \<open>decodeURIComponent\<close>; neither
  holds a surrogate outside a pair, so an id is bound as it is.
\<close>

definition select_by_id_tenant :: "db \<Rightarrow> jsstring \<Rightarrow> jsstring option \<Rightarrow> organization option" where
  "select_by_id_tenant rows i t = find (\<lambda>r. org_id r = i \<and> tenant_is t r) rows"

text \<open>\<open>SELECT * FROM organizations WHERE id = ?\<close>, \<open>.get(id)\<close>.\<close>

definition select_by_id :: "db \<Rightarrow> jsstring \<Rightarrow> organization option" where
  "select_by_id rows i = find (\<lambda>r. org_id r = i) rows"

text \<open>
  The strings a handler binds to the columns of a row, before the driver encodes them:
  the id, and the nine values \<open>name, org_number, ..., description\<close>.
\<close>

record bindings =
  id_param :: jsstring
  name_param :: jsstring
  org_number_param :: jsstring
  address_param :: jsstring
  city_param :: jsstring
  zip_param :: jsstring
  phone_param :: jsstring
  email_param :: jsstring
  website_param :: jsstring
  description_param :: jsstring

text \<open>
  \<open>INSERT INTO organizations (id, tenant_id, name, ...) VALUES (?, ...)\<close>: the row holds
  the UTF-8 encodings of the bound strings and takes the column defaults
  \<open>created_at = datetime('now')\<close> and \<open>updated_at = NULL\<close>. The statement fails on a
  \<open>NULL\<close> tenant and on an id that is already present.
\<close>

definition insert_organization :: "db \<Rightarrow> sqltext \<Rightarrow> bindings \<Rightarrow> jsstring option \<Rightarrow> exn + db" where
  "insert_organization rows now v t =
     (case t of
        None \<Rightarrow> Inl SqliteConstraintNotNull
      | Some tid \<Rightarrow>
          if id_param v \<in> set (map org_id rows) then Inl SqliteConstraintPrimaryKey
          else Inr (rows @
            [\<lparr>org_id = id_param v, tenant_id = utf8 tid, name = utf8 (name_param v),
              org_number = utf8 (org_number_param v), address = utf8 (address_param v),
              city = utf8 (city_param v), zip_code = utf8 (zip_param v),
              phone = utf8 (phone_param v), email = utf8 (email_param v),
              website = utf8 (website_param v), description = utf8 (description_param v),
              created_at = now, updated_at = None\<rparr>]))"

text \<open>
  \<open>UPDATE organizations SET name=?, ..., description=?, updated_at=datetime('now')
  WHERE id=? AND tenant_id=?\<close>: the nine value columns take the UTF-8 encodings of the
  strings bound in \<open>v\<close>.
\<close>

definition set_columns :: "bindings \<Rightarrow> sqltext \<Rightarrow> organization \<Rightarrow> organization" where
  "set_columns v now r =
     r\<lparr>name := utf8 (name_param v), org_number := utf8 (org_number_param v),
       address := utf8 (address_param v), city := utf8 (city_param v),
       zip_code := utf8 (zip_param v), phone := utf8 (phone_param v),
       email := utf8 (email_param v), website := utf8 (website_param v),
       description := utf8 (description_param v), updated_at := Some now\<rparr>"

definition update_organization :: "db \<Rightarrow> sqltext \<Rightarrow> bindings \<Rightarrow> jsstring \<Rightarrow> jsstring option \<Rightarrow> db" where
  "update_organization rows now v i t =
     map (\<lambda>r. if org_id r = i \<and> tenant_is t r then set_columns v now r else r) rows"

text \<open>\<open>DELETE FROM organizations WHERE id = ? AND tenant_id = ?\<close>.\<close>

definition delete_organization :: "db \<Rightarrow> jsstring \<Rightarrow> jsstring option \<Rightarrow> db" where
  "delete_organization rows i t = filter (\<lambda>r. \<not> (org_id r = i \<and> tenant_is t r)) rows"

subsection \<open>Requests and responses\<close>

text \<open>
  \<open>req.body\<close> after \<open>express.json()\<close>: a JSON object whose members are strings, as the
  form of the frontend sends it. \<open>b k = None\<close> when the key is absent (or \<open>null\<close>).
  The object may carry any keys; the handlers read nine of them.
\<close>

type_synonym body = "string \<Rightarrow> jsstring option"

datatype payload =
    ErrorJson jsstring
  | OrganizationsJson "organization list"
  | OrganizationJson "organization option"
  | OkJson
  | ErrorPage exn

record response =
  status :: nat
  payload :: payload

text \<open>A handler either sends a response or throws.\<close>

datatype reply = Sent response | Thrown exn

type_synonym io = "nat \<Rightarrow> bool"

definition no_faults :: io where
  "no_faults = (\<lambda>k. False)"

definition not_found :: response where
  "not_found = \<lparr>status = 404, payload = ErrorJson (ascii ''Not found'')\<rparr>"

text \<open>The message is \<open>Namn kr\<close>, U+00E4, \<open>vs\<close>.\<close>

definition name_required :: response where
  "name_required = \<lparr>status = 400, payload = ErrorJson (ascii ''Namn kr'' @ [228] @ ascii ''vs'')\<rparr>"

text \<open>\<open>x || ''\<close> on an optional member.\<close>

definition or_empty :: "jsstring option \<Rightarrow> jsstring" where
  "or_empty v = (case v of None \<Rightarrow> [] | Some s \<Rightarrow> s)"

text \<open>\<open>!name || !name.trim()\<close>.\<close>

definition name_missing :: "body \<Rightarrow> bool" where
  "name_missing b = (case b ''name'' of None \<Rightarrow> True | Some n \<Rightarrow> n = [] \<or> trim n = [])"

text \<open>
  The strings the POST and PUT handlers bind: the id and
  \<open>name.trim(), org_number || '', ..., description || ''\<close>.
\<close>

definition columns_of :: "jsstring \<Rightarrow> body \<Rightarrow> bindings" where
  "columns_of i b =
     \<lparr>id_param = i, name_param = trim (or_empty (b ''name'')),
      org_number_param = or_empty (b ''org_number''), address_param = or_empty (b ''address''),
      city_param = or_empty (b ''city''), zip_param = or_empty (b ''zip''),
      phone_param = or_empty (b ''phone''), email_param = or_empty (b ''email''),
      website_param = or_empty (b ''website''), description_param = or_empty (b ''description'')\<rparr>"

subsection \<open>The auth middleware\<close>

definition unauthorized :: "string \<Rightarrow> response" where
  "unauthorized msg = \<lparr>status = 401, payload = ErrorJson (ascii msg)\<rparr>"

definition auth :: "(jsstring \<Rightarrow> user option) \<Rightarrow> jsstring option \<Rightarrow> response + user" where
  "auth verify header =
     (case header of
        None \<Rightarrow> Inl (unauthorized ''No token provided'')
      | Some h \<Rightarrow>
          if h = [] then Inl (unauthorized ''No token provided'')
          else (case verify (replace_first (ascii ''Bearer '') h) of
                  None \<Rightarrow> Inl (unauthorized ''Invalid token'')
                | Some decoded \<Rightarrow> Inr decoded))"

subsection \<open>The route handlers\<close>

text \<open>\<open>GET /organizations\<close>\<close>

definition get_organizations :: "io \<Rightarrow> db \<Rightarrow> user \<Rightarrow> reply \<times> db" where
  "get_organizations io rows u =
     (if io 0 then (Thrown SqliteIoError, rows)
      else (Sent \<lparr>status = 200,
                  payload = OrganizationsJson (select_by_tenant rows (tenantId u))\<rparr>, rows))"

text \<open>\<open>GET /organizations/:id\<close>\<close>

definition get_organization :: "io \<Rightarrow> db \<Rightarrow> user \<Rightarrow> jsstring \<Rightarrow> reply \<times> db" where
  "get_organization io rows u i =
     (if io 0 then (Thrown SqliteIoError, rows)
      else (case select_by_id_tenant rows i (tenantId u) of
              None \<Rightarrow> (Sent not_found, rows)
            | Some org \<Rightarrow> (Sent \<lparr>status = 200, payload = OrganizationJson (Some org)\<rparr>, rows)))"

text \<open>\<open>POST /organizations\<close>\<close>

definition post_organizations ::
    "io \<Rightarrow> jsstring \<Rightarrow> jsstring \<Rightarrow> db \<Rightarrow> user \<Rightarrow> body \<Rightarrow> reply \<times> db" where
  "post_organizations io uuid now rows u b =
     (if name_missing b then (Sent name_required, rows)
      else if io 0 then (Thrown SqliteIoError, rows)
      else (case insert_organization rows now (columns_of uuid b) (tenantId u) of
              Inl e \<Rightarrow> (Thrown e, rows)
            | Inr rows' \<Rightarrow>
                if io 1 then (Thrown SqliteIoError, rows')
                else (Sent \<lparr>status = 201,
                            payload = OrganizationJson (select_by_id rows' uuid)\<rparr>, rows')))"

text \<open>\<open>PUT /organizations/:id\<close>\<close>

definition put_organization ::
    "io \<Rightarrow> jsstring \<Rightarrow> db \<Rightarrow> user \<Rightarrow> jsstring \<Rightarrow> body \<Rightarrow> reply \<times> db" where
  "put_organization io now rows u i b =
     (if io 0 then (Thrown SqliteIoError, rows)
      else (case select_by_id_tenant rows i (tenantId u) of
              None \<Rightarrow> (Sent not_found, rows)
            | Some existing \<Rightarrow>
                if name_missing b then (Sent name_required, rows)
                else if io 1 then (Thrown SqliteIoError, rows)
                else (let rows' = update_organization rows now (columns_of i b) i (tenantId u)
                      in if io 2 then (Thrown SqliteIoError, rows')
                         else (Sent \<lparr>status = 200,
                                     payload = OrganizationJson (select_by_id rows' i)\<rparr>, rows'))))"

text \<open>\<open>DELETE /organizations/:id\<close>\<close>

definition delete_organization_route :: "io \<Rightarrow> db \<Rightarrow> user \<Rightarrow> jsstring \<Rightarrow> reply \<times> db" where
  "delete_organization_route io rows u i =
     (if io 0 then (Thrown SqliteIoError, rows)
      else (case select_by_id_tenant rows i (tenantId u) of
              None \<Rightarrow> (Sent not_found, rows)
            | Some existing \<Rightarrow>
                if io 1 then (Thrown SqliteIoError, rows)
                else (Sent \<lparr>status = 200, payload = OkJson\<rparr>,
                      delete_organization rows i (tenantId u))))"

subsection \<open>The application\<close>

datatype route =
    GetOrganizations
  | GetOrganization jsstring
  | PostOrganizations body
  | PutOrganization jsstring body
  | DeleteOrganization jsstring

record request =
  authorization :: "jsstring option"
  route :: route

definition dispatch :: "io \<Rightarrow> jsstring \<Rightarrow> jsstring \<Rightarrow> db \<Rightarrow> user \<Rightarrow> route \<Rightarrow> reply \<times> db" where
  "dispatch io uuid now rows u rt =
     (case rt of
        GetOrganizations \<Rightarrow> get_organizations io rows u
      | GetOrganization i \<Rightarrow> get_organization io rows u i
      | PostOrganizations b \<Rightarrow> post_organizations io uuid now rows u b
      | PutOrganization i b \<Rightarrow> put_organization io now rows u i b
      | DeleteOrganization i \<Rightarrow> delete_organization_route io rows u i)"

text \<open>
  The application registers no error-handling middleware and no handler catches, so
  an exception thrown by a handler reaches the default error handler of Express,
  which answers with status 500 and an HTML page rendered from the exception.
\<close>

definition default_error_handler :: "exn \<Rightarrow> response" where
  "default_error_handler e = \<lparr>status = 500, payload = ErrorPage e\<rparr>"

definition app ::
    "(jsstring \<Rightarrow> user option) \<Rightarrow> io \<Rightarrow> jsstring \<Rightarrow> jsstring \<Rightarrow> db \<Rightarrow> request \<Rightarrow> response \<times> db" where
  "app verify io uuid now rows req =
     (case auth verify (authorization req) of
        Inl rejected \<Rightarrow> (rejected, rows)
      | Inr u \<Rightarrow>
          (case dispatch io uuid now rows u (route req) of
             (Sent r, rows') \<Rightarrow> (r, rows')
           | (Thrown e, rows') \<Rightarrow> (default_error_handler e, rows')))"

subsection \<open>Sequences of requests\<close>

text \<open>
  A sequence of authenticated requests, each with what it takes from its environment,
  run one after the other on the table.
\<close>

record step =
  step_io :: io
  step_uuid :: jsstring
  step_now :: jsstring
  step_user :: user
  step_route :: route

fun run :: "db \<Rightarrow> step list \<Rightarrow> db" where
  "run rows [] = rows"
| "run rows (s # ss) =
     run (snd (dispatch (step_io s) (step_uuid s) (step_now s) rows (step_user s) (step_route s))) ss"

subsection \<open>Observations on responses\<close>

text \<open>The organization records a response body carries.\<close>

fun returned :: "payload \<Rightarrow> organization list" where
  "returned (OrganizationsJson xs) = xs"
| "returned (OrganizationJson (Some x)) = [x]"
| "returned _ = []"

text \<open>The body has the shape \<open>{"error": "<message>"}\<close>.\<close>

fun is_error_json :: "payload \<Rightarrow> bool" where
  "is_error_json (ErrorJson msg) = True"
| "is_error_json _ = False"


subsection \<open>Concrete inputs\<close>

definition org :: "string \<Rightarrow> string \<Rightarrow> string \<Rightarrow> organization" where
  "org i t n =
     \<lparr>org_id = ascii i, tenant_id = ascii t, name = ascii n, org_number = [], address = [],
      city = [], zip_code = [], phone = [], email = [], website = [], description = [],
      created_at = ascii ''2024-01-01 00:00:00'', updated_at = None\<rparr>"

definition t1 :: user where
  "t1 = \<lparr>tenantId = Some (ascii ''t1'')\<rparr>"

definition t2 :: user where
  "t2 = \<lparr>tenantId = Some (ascii ''t2'')\<rparr>"

definition no_body :: body where
  "no_body = Map.empty"

definition blank_body :: body where
  "blank_body = [''name'' \<mapsto> [32, 9, 160, 8195]]"

definition acme_body :: body where
  "acme_body = [''name'' \<mapsto> ascii '' Acme AB '', ''city'' \<mapsto> ascii ''Stockholm'']"

definition noon :: jsstring where
  "noon = ascii ''2024-06-01 12:00:00''"

definition later :: jsstring where
  "later = ascii ''2024-06-01 12:00:05''"

text \<open>A verifier that accepts every token and reads the token itself as the tenant.\<close>

definition token_is_tenant :: "jsstring \<Rightarrow> user option" where
  "token_is_tenant tok = Some \<lparr>tenantId = Some tok\<rparr>"

text \<open>A verifier that throws on every token.\<close>

definition reject_all :: "jsstring \<Rightarrow> user option" where
  "reject_all tok = None"

text \<open>Every statement raises an I/O error.\<close>

definition store_down :: io where
  "store_down = (\<lambda>k. True)"


text \<open>
  Two tenant identities that differ as JavaScript strings, \<open>t\<close> followed by the
  surrogate U+D800 and \<open>t\<close> followed by U+FFFD, and the record a create with
  \<open>acme_body\<close> under the first stores for the id \<open>o3\<close>.
\<close>

definition lone :: user where
  "lone = \<lparr>tenantId = Some [116, 55296]\<rparr>"

definition replaced :: user where
  "replaced = \<lparr>tenantId = Some [116, 65533]\<rparr>"

definition lone_created :: organization where
  "lone_created =
     (org ''o3'' ''t'' ''Acme AB'')\<lparr>tenant_id := [116, 65533], city := ascii ''Stockholm'',
                                   created_at := noon\<rparr>"

text \<open>A body whose name and city hold a surrogate outside a pair.\<close>

definition odd_body :: body where
  "odd_body = [''name'' \<mapsto> [97, 55296, 98], ''city'' \<mapsto> [55296]]"

text \<open>The record \<open>acme_old\<close> after an update with \<open>odd_body\<close> at \<open>noon\<close>.\<close>

definition odd_updated :: organization where
  "odd_updated =
     (org ''o1'' ''t1'' ''a'')\<lparr>name := [97, 65533, 98], city := [65533], updated_at := Some noon\<rparr>"

text \<open>A table with one record of tenant \<open>t1\<close> and one of tenant \<open>t2\<close>.\<close>

definition two_tenants :: db where
  "two_tenants = [org ''o1'' ''t1'' ''Acme'', org ''o2'' ''t2'' ''Beta'']"

text \<open>Tenant \<open>t2\<close> creates a record and tenant \<open>t1\<close> lists its own.\<close>

definition later_requests :: "step list" where
  "later_requests =
     [\<lparr>step_io = no_faults, step_uuid = ascii ''o3'', step_now = later, step_user = t2,
       step_route = PostOrganizations acme_body\<rparr>,
      \<lparr>step_io = no_faults, step_uuid = ascii ''o4'', step_now = later, step_user = t1,
       step_route = GetOrganizations\<rparr>]"

text \<open>Three records of tenant \<open>t1\<close>, inserted in the order Zeta, Alpha, Mid.\<close>

definition zeta_alpha_mid :: db where
  "zeta_alpha_mid = [org ''o1'' ''t1'' ''Zeta'', org ''o2'' ''t1'' ''Alpha'', org ''o3'' ''t1'' ''Mid'']"

text \<open>
  A record of tenant \<open>t1\<close> with an organization number and a phone number, beside a
  record of tenant \<open>t2\<close>; the record after an update with \<open>acme_body\<close> at \<open>noon\<close>;
  the record a create with \<open>acme_body\<close> under \<open>t1\<close> stores for the id \<open>o3\<close>.
\<close>

definition acme_old :: organization where
  "acme_old = (org ''o1'' ''t1'' ''Acme'')\<lparr>org_number := ascii ''556677-8899'', phone := ascii ''08-123''\<rparr>"

definition acme_table :: db where
  "acme_table = [acme_old, org ''o2'' ''t2'' ''Beta'']"

definition acme_updated :: organization where
  "acme_updated =
     (org ''o1'' ''t1'' ''Acme AB'')\<lparr>city := ascii ''Stockholm'', updated_at := Some noon\<rparr>"

definition acme_created :: organization where
  "acme_created = (org ''o3'' ''t1'' ''Acme AB'')\<lparr>city := ascii ''Stockholm'', created_at := noon\<rparr>"

text \<open>The same body with a \<open>tenant_id\<close> member.\<close>

definition forged_body :: body where
  "forged_body = acme_body(''tenant_id'' \<mapsto> ascii ''t2'')"

section \<open>Properties of the statements\<close>

lemma utf8_ascii [simp]: "utf8 (ascii s) = ascii s"
proof -
  have "\<not> is_surrogate (of_char c)" for c :: char
    using nat_of_char_less_256 [of c] unfolding is_surrogate_def by linarith
  then show ?thesis
    by (simp add: utf8_def ascii_def)
qed

lemma utf8_Nil [simp]: "utf8 [] = []"
  by (simp add: utf8_def)

lemma utf8_idem [simp]: "utf8 (utf8 s) = utf8 s"
  by (induction s) (simp_all add: utf8_def is_surrogate_def)

lemma select_by_id_tenant_Some:
  "select_by_id_tenant rows i t = Some r \<Longrightarrow>
   r \<in> set rows \<and> org_id r = i \<and> map_option utf8 t = Some (tenant_id r)"
  by (auto simp: select_by_id_tenant_def tenant_is_def find_Some_iff)

lemma select_by_id_tenant_None:
  "select_by_id_tenant rows i t = None \<longleftrightarrow> (\<forall>r\<in>set rows. \<not> (org_id r = i \<and> tenant_is t r))"
  by (auto simp: select_by_id_tenant_def find_None_iff)

lemma find_unique:
  "distinct (map f rows) \<Longrightarrow> r \<in> set rows \<Longrightarrow> find (\<lambda>x. f x = f r) rows = Some r"
  by (induction rows) (auto simp: image_iff)

lemma select_by_id_member:
  "primary_key rows \<Longrightarrow> r \<in> set rows \<Longrightarrow> select_by_id rows (org_id r) = Some r"
  by (simp add: primary_key_def select_by_id_def find_unique)

lemma select_by_id_tenant_other:
  assumes "primary_key rows" "r \<in> set rows" "map_option utf8 t \<noteq> Some (tenant_id r)"
  shows "select_by_id_tenant rows (org_id r) t = None"
proof -
  have "x = r" if "x \<in> set rows" "org_id x = org_id r" for x
    using assms(1,2) that by (metis primary_key_def distinct_map inj_onD)
  with assms(3) show ?thesis
    by (auto simp: select_by_id_tenant_None tenant_is_def)
qed

lemma select_by_id_tenant_absent:
  "i \<notin> org_id ` set rows \<Longrightarrow> select_by_id_tenant rows i t = None"
  by (auto simp: select_by_id_tenant_None)

lemma org_id_set_columns [simp]: "org_id (set_columns v now r) = org_id r"
  by (simp add: set_columns_def)

lemma tenant_id_set_columns [simp]: "tenant_id (set_columns v now r) = tenant_id r"
  by (simp add: set_columns_def)

lemma map_org_id_update:
  "map org_id (update_organization rows now v i t) = map org_id rows"
  by (simp add: update_organization_def)

lemma map_tenant_id_update:
  "map tenant_id (update_organization rows now v i t) = map tenant_id rows"
  by (simp add: update_organization_def)

lemma primary_key_update:
  "primary_key rows \<Longrightarrow> primary_key (update_organization rows now v i t)"
  by (simp add: primary_key_def map_org_id_update)

lemma primary_key_delete:
  "primary_key rows \<Longrightarrow> primary_key (delete_organization rows i t)"
  by (simp add: primary_key_def delete_organization_def distinct_map_filter)

lemma primary_key_insert:
  "primary_key rows \<Longrightarrow> insert_organization rows now r t = Inr rows' \<Longrightarrow> primary_key rows'"
  by (auto simp: primary_key_def insert_organization_def split: option.splits if_splits)

lemma select_by_id_update:
  assumes "primary_key rows" "select_by_id_tenant rows i t = Some old"
  shows "select_by_id (update_organization rows now v i t) i = Some (set_columns v now old)"
proof -
  from assms(2) have old: "old \<in> set rows" "org_id old = i"
    "map_option utf8 t = Some (tenant_id old)"
    using select_by_id_tenant_Some by blast+
  have pk: "primary_key (update_organization rows now v i t)"
    using assms(1) by (rule primary_key_update)
  have "set_columns v now old \<in> set (update_organization rows now v i t)"
    using old by (force simp: update_organization_def tenant_is_def)
  from select_by_id_member [OF pk this] old(2) show ?thesis by simp
qed

lemma primary_key_dispatch:
  "primary_key rows \<Longrightarrow> primary_key (snd (dispatch io uuid now rows u rt))"
  by (cases rt)
     (auto simp: dispatch_def get_organizations_def get_organization_def
        post_organizations_def put_organization_def delete_organization_route_def Let_def
        primary_key_update primary_key_delete
        dest: primary_key_insert split: option.splits sum.splits)

lemma primary_key_run:
  "primary_key rows \<Longrightarrow> primary_key (run rows steps)"
  by (induction steps arbitrary: rows) (simp_all add: primary_key_dispatch)

lemma primary_key_empty: "primary_key []"
  by (simp add: primary_key_def)

lemma dispatch_keeps_absent:
  assumes "select_by_id_tenant rows i t = None" "uuid \<noteq> i"
  shows "select_by_id_tenant (snd (dispatch io uuid now rows u rt)) i t = None"
proof (cases rt)
  case (PostOrganizations b)
  with assms show ?thesis
    by (auto simp: dispatch_def post_organizations_def insert_organization_def
        select_by_id_tenant_None columns_of_def split: option.splits)
next
  case (PutOrganization j b)
  with assms show ?thesis
    by (auto simp: dispatch_def put_organization_def update_organization_def Let_def
        select_by_id_tenant_None tenant_is_def split: option.splits)
next
  case (DeleteOrganization j)
  with assms show ?thesis
    by (auto simp: dispatch_def delete_organization_route_def delete_organization_def
        select_by_id_tenant_None split: option.splits)
qed (use assms in \<open>auto simp: dispatch_def get_organizations_def get_organization_def split: option.splits\<close>)

lemma run_keeps_absent:
  "select_by_id_tenant rows i t = None \<Longrightarrow> \<forall>s\<in>set steps. step_uuid s \<noteq> i \<Longrightarrow>
   select_by_id_tenant (run rows steps) i t = None"
  by (induction steps arbitrary: rows) (simp_all add: dispatch_keeps_absent)

lemma select_after_delete:
  "select_by_id_tenant (delete_organization rows i t) i t = None"
  by (simp add: select_by_id_tenant_None delete_organization_def)

lemma set_select_by_tenant:
  "set (select_by_tenant rows t) = {r \<in> set rows. tenant_is t r}"
  by (simp add: select_by_tenant_def)

lemma select_by_id_insert:
  "i \<notin> org_id ` set rows \<Longrightarrow> org_id r = i \<Longrightarrow> select_by_id (rows @ [r]) i = Some r"
  by (induction rows) (auto simp: select_by_id_def)

lemma select_by_id_tenant_insert:
  "i \<notin> org_id ` set rows \<Longrightarrow> org_id r = i \<Longrightarrow> tenant_id r = utf8 T \<Longrightarrow>
   select_by_id_tenant (rows @ [r]) i (Some T) = Some r"
  by (induction rows) (auto simp: select_by_id_tenant_def tenant_is_def)

lemma name_missing_iff:
  "name_missing b \<longleftrightarrow>
     b ''name'' = None \<or> b ''name'' = Some [] \<or> (\<exists>n. b ''name'' = Some n \<and> trim n = [])"
  by (auto simp: name_missing_def split: option.splits)

lemma name_present:
  "b ''name'' = Some n \<Longrightarrow> trim n \<noteq> [] \<Longrightarrow> \<not> name_missing b"
  by (auto simp: name_missing_def trim_def)

lemma returned_tenant:
  assumes pk: "primary_key rows" and u: "tenantId u = Some T"
    and sent: "dispatch io uuid now rows u rt = (Sent resp, rows')"
    and x: "x \<in> set (returned (payload resp))"
  shows "tenant_id x = utf8 T"
proof (cases rt)
  case GetOrganizations
  with sent x u show ?thesis
    by (auto simp: dispatch_def get_organizations_def set_select_by_tenant tenant_is_def
        split: if_splits)
next
  case (GetOrganization i)
  with sent x u show ?thesis
    by (auto simp: dispatch_def get_organization_def not_found_def
        split: if_splits option.splits dest: select_by_id_tenant_Some)
next
  case (PostOrganizations b)
  with sent x u show ?thesis
    by (auto simp: dispatch_def post_organizations_def insert_organization_def name_required_def
        select_by_id_insert columns_of_def
        split: if_splits option.splits)
next
  case (PutOrganization i b)
  with sent x u pk show ?thesis
    by (auto simp: dispatch_def put_organization_def Let_def not_found_def name_required_def
        select_by_id_update
        split: if_splits option.splits dest: select_by_id_tenant_Some)
next
  case (DeleteOrganization i)
  with sent x show ?thesis
    by (auto simp: dispatch_def delete_organization_route_def not_found_def
        split: if_splits option.splits)
qed

lemma foreign_row_kept:
  assumes r: "r \<in> set rows" and other: "map_option utf8 (tenantId u) \<noteq> Some (tenant_id r)"
  shows "r \<in> set (snd (dispatch io uuid now rows u rt))"
proof (cases rt)
  case (PostOrganizations b)
  with r show ?thesis
    by (auto simp: dispatch_def post_organizations_def insert_organization_def
        split: option.splits)
next
  case (PutOrganization i b)
  have "r \<in> set (update_organization rows now v i (tenantId u))" for v
    using r other by (force simp: update_organization_def tenant_is_def)
  with r PutOrganization show ?thesis
    by (auto simp: dispatch_def put_organization_def Let_def split: option.splits)
next
  case (DeleteOrganization i)
  with r other show ?thesis
    by (auto simp: dispatch_def delete_organization_route_def delete_organization_def
        tenant_is_def split: option.splits)
qed (use r in \<open>auto simp: dispatch_def get_organizations_def get_organization_def split: option.splits\<close>)

lemma two_tenants_facts:
  "primary_key two_tenants"
  "org ''o1'' ''t1'' ''Acme'' \<in> set two_tenants"
  "tenant_id (org ''o1'' ''t1'' ''Acme'') = ascii ''t1''"
  "org_id (org ''o1'' ''t1'' ''Acme'') = ascii ''o1''"
  "ascii ''t1'' \<noteq> ascii ''t2''"
  "tenantId t1 = Some (ascii ''t1'')"
  "tenantId t2 = Some (ascii ''t2'')"
  "ascii ''o9'' \<notin> org_id ` set two_tenants"
  "tenant_id (org ''o1'' ''t1'' ''Acme'') = utf8 (ascii ''t1'')"
  "utf8 (ascii ''t1'') \<noteq> utf8 (ascii ''t2'')"
  by (simp_all add: primary_key_def two_tenants_def org_def t1_def t2_def)
     (simp_all add: ascii_def utf8_def is_surrogate_def)

lemma primary_key_same_id:
  "primary_key rows \<Longrightarrow> r \<in> set rows \<Longrightarrow> x \<in> set rows \<Longrightarrow> org_id x = org_id r \<Longrightarrow> x = r"
  by (metis primary_key_def distinct_map inj_onD)

lemma select_by_id_tenant_member:
  assumes "primary_key rows" "r \<in> set rows" "map_option utf8 t = Some (tenant_id r)"
  shows "select_by_id_tenant rows (org_id r) t = Some r"
proof -
  have "find (\<lambda>x. org_id x = org_id r \<and> tenant_is t x) rows
          = find (\<lambda>x. org_id x = org_id r) rows"
    using primary_key_same_id [OF assms(1,2)] assms(3)
    by (intro find_cong) (auto simp: tenant_is_def)
  with select_by_id_member [OF assms(1,2)] show ?thesis
    by (simp add: select_by_id_tenant_def select_by_id_def)
qed

lemma update_organization_eq:
  assumes "primary_key rows" "select_by_id_tenant rows i t = Some old"
  shows "update_organization rows now v i t
           = map (\<lambda>r. if r = old then set_columns v now old else r) rows"
proof -
  from assms(2) have old: "old \<in> set rows" "org_id old = i"
    "map_option utf8 t = Some (tenant_id old)"
    using select_by_id_tenant_Some by blast+
  have "(org_id r = i \<and> tenant_is t r) \<longleftrightarrow> r = old" if "r \<in> set rows" for r
    using primary_key_same_id [OF assms(1) old(1) that] old(2,3)
    by (auto simp: tenant_is_def)
  then show ?thesis
    by (auto simp: update_organization_def)
qed

lemma select_by_id_tenant_update:
  assumes "primary_key rows" "select_by_id_tenant rows i t = Some old"
  shows "select_by_id_tenant (update_organization rows now v i t) i t = Some (set_columns v now old)"
proof -
  from assms(2) have old: "old \<in> set rows" "org_id old = i"
    "map_option utf8 t = Some (tenant_id old)"
    using select_by_id_tenant_Some by blast+
  have pk: "primary_key (update_organization rows now v i t)"
    using assms(1) by (rule primary_key_update)
  have "set_columns v now old \<in> set (update_organization rows now v i t)"
    using old by (force simp: update_organization_def tenant_is_def)
  from select_by_id_tenant_member [OF pk this, of t] old(2,3) show ?thesis by simp
qed

lemma put_organization_success:
  assumes "primary_key rows" "select_by_id_tenant rows i (tenantId u) = Some old"
    "\<not> name_missing b"
  shows "put_organization no_faults now rows u i b
           = (Sent \<lparr>status = 200,
                    payload = OrganizationJson (Some (set_columns (columns_of i b) now old))\<rparr>,
              map (\<lambda>r. if r = old then set_columns (columns_of i b) now old else r) rows)"
proof -
  let ?rows' = "update_organization rows now (columns_of i b) i (tenantId u)"
  have "put_organization no_faults now rows u i b
          = (Sent \<lparr>status = 200, payload = OrganizationJson (select_by_id ?rows' i)\<rparr>, ?rows')"
    using assms(2,3) by (simp add: put_organization_def no_faults_def Let_def)
  then have "put_organization no_faults now rows u i b
          = (Sent \<lparr>status = 200,
                   payload = OrganizationJson (Some (set_columns (columns_of i b) now old))\<rparr>, ?rows')"
    by (simp only: select_by_id_update [OF assms(1,2)])
  then show ?thesis
    by (simp only: update_organization_eq [OF assms(1,2)])
qed

lemma columns_of_other_key:
  "k \<notin> {''name'', ''org_number'', ''address'', ''city'', ''zip'', ''phone'', ''email'',
         ''website'', ''description''} \<Longrightarrow>
   columns_of i (b(k \<mapsto> v)) = columns_of i b \<and> name_missing (b(k \<mapsto> v)) = name_missing b"
  by (auto simp: columns_of_def name_missing_def)

lemma acme_table_facts:
  "primary_key acme_table"
  "select_by_id_tenant acme_table (ascii ''o1'') (tenantId t1) = Some acme_old"
  "acme_body ''name'' = Some (ascii '' Acme AB '')"
  "trim (ascii '' Acme AB '') \<noteq> []"
  "tenantId t1 = Some (ascii ''t1'')"
  "ascii ''o3'' \<notin> org_id ` set acme_table"
  by (simp_all add: primary_key_def select_by_id_tenant_def tenant_is_def acme_table_def
      acme_old_def org_def t1_def acme_body_def trim_def is_white_space_def ascii_def
      utf8_def is_surrogate_def)

lemma acme_updated_eq:
  "acme_old\<lparr>name := utf8 (trim (ascii '' Acme AB '')),
     org_number := utf8 (or_empty (acme_body ''org_number'')),
     address := utf8 (or_empty (acme_body ''address'')),
     city := utf8 (or_empty (acme_body ''city'')),
     zip_code := utf8 (or_empty (acme_body ''zip'')),
     phone := utf8 (or_empty (acme_body ''phone'')),
     email := utf8 (or_empty (acme_body ''email'')),
     website := utf8 (or_empty (acme_body ''website'')),
     description := utf8 (or_empty (acme_body ''description'')),
     updated_at := Some noon\<rparr> = acme_updated"
  by (simp add: acme_old_def acme_updated_def org_def acme_body_def or_empty_def trim_def
      is_white_space_def ascii_def utf8_def is_surrogate_def)

lemma acme_created_eq:
  "\<lparr>org_id = ascii ''o3'', tenant_id = ascii ''t1'',
    name = utf8 (trim (ascii '' Acme AB '')),
    org_number = utf8 (or_empty (acme_body ''org_number'')),
    address = utf8 (or_empty (acme_body ''address'')),
    city = utf8 (or_empty (acme_body ''city'')),
    zip_code = utf8 (or_empty (acme_body ''zip'')),
    phone = utf8 (or_empty (acme_body ''phone'')),
    email = utf8 (or_empty (acme_body ''email'')),
    website = utf8 (or_empty (acme_body ''website'')),
    description = utf8 (or_empty (acme_body ''description'')),
    created_at = noon, updated_at = None\<rparr> = acme_created"
  by (simp add: acme_created_def org_def acme_body_def or_empty_def trim_def
      is_white_space_def ascii_def utf8_def is_surrogate_def)









section \<open>The claims\<close>

text \<open>
  C10. For every authenticated PUT whose (id, tenant) pair matches no row, the response
  is NotFound (HTTP 404) whatever the body is, also when its name is absent or trims
  to empty: the handler looks the row up before it validates the name.
\<close>

theorem put_not_found_precedes_validation:
  assumes "select_by_id_tenant rows i (tenantId u) = None"
  shows "put_organization no_faults now rows u i b = (Sent not_found, rows) \<and>
         status not_found = 404"
  using assms by (simp add: put_organization_def no_faults_def not_found_def)

theorem put_not_found_precedes_validation_witness:
  "select_by_id_tenant [org ''o1'' ''t1'' ''Acme''] (ascii ''o1'') (tenantId t2) = None \<and>
   name_missing blank_body \<and> name_missing no_body \<and>
   put_organization no_faults noon [org ''o1'' ''t1'' ''Acme''] t2 (ascii ''o1'') blank_body
     = (Sent not_found, [org ''o1'' ''t1'' ''Acme'']) \<and>
   put_organization no_faults noon [org ''o1'' ''t1'' ''Acme''] t2 (ascii ''o1'') no_body
     = (Sent not_found, [org ''o1'' ''t1'' ''Acme''])"
proof -
  have absent: "select_by_id_tenant [org ''o1'' ''t1'' ''Acme''] (ascii ''o1'') (tenantId t2) = None"
    by (simp add: select_by_id_tenant_def tenant_is_def org_def t2_def ascii_def utf8_def is_surrogate_def)
  have blank: "name_missing blank_body" "name_missing no_body"
    by (simp_all add: name_missing_def blank_body_def no_body_def trim_def is_white_space_def)
  from absent blank
    put_not_found_precedes_validation [OF absent, of noon blank_body]
    put_not_found_precedes_validation [OF absent, of noon no_body]
  show ?thesis by simp
qed

text \<open>
  C6. For every record existing under tenant T, delete succeeds with HTTP 200 and body
  \<open>{ok: true}\<close> and removes the row; after it, and after any further requests of any
  tenant in which \<open>uuidv4()\<close> does not produce the deleted id again, get, update and
  delete under T with that id answer NotFound (HTTP 404). Delete on an id that does not
  exist under T answers NotFound and leaves the table as it is.
\<close>

theorem delete_removes_permanently:
  "(select_by_id_tenant rows i (tenantId u) = Some r \<longrightarrow>
      delete_organization_route no_faults rows u i
        = (Sent \<lparr>status = 200, payload = OkJson\<rparr>, delete_organization rows i (tenantId u)) \<and>
      r \<notin> set (delete_organization rows i (tenantId u)) \<and>
      ((\<forall>s\<in>set steps. step_uuid s \<noteq> i) \<longrightarrow>
        (let rows' = run (delete_organization rows i (tenantId u)) steps in
           get_organization no_faults rows' u i = (Sent not_found, rows') \<and>
           put_organization no_faults now rows' u i b = (Sent not_found, rows') \<and>
           delete_organization_route no_faults rows' u i = (Sent not_found, rows')))) \<and>
   (select_by_id_tenant rows i (tenantId u) = None \<longrightarrow>
      delete_organization_route no_faults rows u i = (Sent not_found, rows)) \<and>
   status not_found = 404"
proof (intro conjI impI)
  assume ex: "select_by_id_tenant rows i (tenantId u) = Some r"
  then show "delete_organization_route no_faults rows u i
        = (Sent \<lparr>status = 200, payload = OkJson\<rparr>, delete_organization rows i (tenantId u))"
    by (simp add: delete_organization_route_def no_faults_def)
  from select_by_id_tenant_Some [OF ex]
  show "r \<notin> set (delete_organization rows i (tenantId u))"
    by (simp add: delete_organization_def tenant_is_def)
  assume "\<forall>s\<in>set steps. step_uuid s \<noteq> i"
  with select_after_delete
  have "select_by_id_tenant (run (delete_organization rows i (tenantId u)) steps) i (tenantId u) = None"
    by (rule run_keeps_absent)
  then show "let rows' = run (delete_organization rows i (tenantId u)) steps in
           get_organization no_faults rows' u i = (Sent not_found, rows') \<and>
           put_organization no_faults now rows' u i b = (Sent not_found, rows') \<and>
           delete_organization_route no_faults rows' u i = (Sent not_found, rows')"
    by (simp add: Let_def get_organization_def put_organization_def
        delete_organization_route_def no_faults_def)
next
  assume "select_by_id_tenant rows i (tenantId u) = None"
  then show "delete_organization_route no_faults rows u i = (Sent not_found, rows)"
    by (simp add: delete_organization_route_def no_faults_def)
next
  show "status not_found = 404" by (simp add: not_found_def)
qed

theorem delete_removes_permanently_witness:
  "select_by_id_tenant two_tenants (ascii ''o1'') (tenantId t1) = Some (org ''o1'' ''t1'' ''Acme'') \<and>
   delete_organization_route no_faults two_tenants t1 (ascii ''o1'')
     = (Sent \<lparr>status = 200, payload = OkJson\<rparr>, [org ''o2'' ''t2'' ''Beta'']) \<and>
   ascii ''o1'' \<notin> set (map step_uuid later_requests) \<and>
   (let rows' = run (delete_organization two_tenants (ascii ''o1'') (tenantId t1)) later_requests in
      get_organization no_faults rows' t1 (ascii ''o1'') = (Sent not_found, rows') \<and>
      put_organization no_faults noon rows' t1 (ascii ''o1'') acme_body = (Sent not_found, rows') \<and>
      delete_organization_route no_faults rows' t1 (ascii ''o1'') = (Sent not_found, rows')) \<and>
   select_by_id_tenant two_tenants (ascii ''o2'') (tenantId t1) = None \<and>
   delete_organization_route no_faults two_tenants t1 (ascii ''o2'') = (Sent not_found, two_tenants)"
proof -
  have present:
    "select_by_id_tenant two_tenants (ascii ''o1'') (tenantId t1) = Some (org ''o1'' ''t1'' ''Acme'')"
    by (simp add: select_by_id_tenant_def tenant_is_def two_tenants_def org_def t1_def ascii_def utf8_def is_surrogate_def)
  have absent: "select_by_id_tenant two_tenants (ascii ''o2'') (tenantId t1) = None"
    by (simp add: select_by_id_tenant_def tenant_is_def two_tenants_def org_def t1_def ascii_def utf8_def is_surrogate_def)
  have uuids: "\<forall>s\<in>set later_requests. step_uuid s \<noteq> ascii ''o1''"
    by (simp add: later_requests_def ascii_def)
  have deleted:
    "delete_organization two_tenants (ascii ''o1'') (tenantId t1) = [org ''o2'' ''t2'' ''Beta'']"
    by (simp add: delete_organization_def tenant_is_def two_tenants_def org_def t1_def ascii_def utf8_def is_surrogate_def)
  from delete_removes_permanently
         [of two_tenants "ascii ''o1''" t1 "org ''o1'' ''t1'' ''Acme''" later_requests noon acme_body]
       present uuids
  have first:
    "delete_organization_route no_faults two_tenants t1 (ascii ''o1'')
       = (Sent \<lparr>status = 200, payload = OkJson\<rparr>, [org ''o2'' ''t2'' ''Beta''])"
    "let rows' = run (delete_organization two_tenants (ascii ''o1'') (tenantId t1)) later_requests in
      get_organization no_faults rows' t1 (ascii ''o1'') = (Sent not_found, rows') \<and>
      put_organization no_faults noon rows' t1 (ascii ''o1'') acme_body = (Sent not_found, rows') \<and>
      delete_organization_route no_faults rows' t1 (ascii ''o1'') = (Sent not_found, rows')"
    by (simp_all only: deleted simp_thms)
  from delete_removes_permanently [of two_tenants "ascii ''o2''" t1] absent
  have second:
    "delete_organization_route no_faults two_tenants t1 (ascii ''o2'') = (Sent not_found, two_tenants)"
    by simp
  have uuids': "ascii ''o1'' \<notin> set (map step_uuid later_requests)"
    by (simp add: later_requests_def ascii_def)
  from present absent uuids' first second show ?thesis
    by (intro conjI)
qed

text \<open>
  C7. For every tenant, list answers HTTP 200 with exactly the tenant's records, the
  rows whose tenant_id is the caller's identity as the store holds it (its UTF-8
  encoding), as a multiset, sorted by name in ascending order; records named Zeta,
  Alpha, Mid come back as Alpha, Mid, Zeta, and a tenant with no records receives the
  empty sequence with HTTP 200.
\<close>

theorem list_sorted_by_name:
  assumes "tenantId u = Some T"
  shows "\<exists>xs. get_organizations no_faults rows u
              = (Sent \<lparr>status = 200, payload = OrganizationsJson xs\<rparr>, rows) \<and>
           sorted (map name xs) \<and>
           mset xs = filter_mset (\<lambda>r. tenant_id r = utf8 T) (mset rows) \<and>
           (filter (\<lambda>r. tenant_id r = utf8 T) rows = [] \<longrightarrow> xs = [])"
proof -
  have same: "tenant_is (Some T) = (\<lambda>r. tenant_id r = utf8 T)"
    by (auto simp: tenant_is_def)
  have "get_organizations no_faults rows u
          = (Sent \<lparr>status = 200, payload = OrganizationsJson (select_by_tenant rows (Some T))\<rparr>, rows)"
    using assms by (simp add: get_organizations_def no_faults_def)
  moreover have "sorted (map name (select_by_tenant rows (Some T)))"
    by (simp add: select_by_tenant_def)
  moreover have "mset (select_by_tenant rows (Some T))
      = filter_mset (\<lambda>r. tenant_id r = utf8 T) (mset rows)"
    by (simp add: select_by_tenant_def same)
  moreover have "filter (\<lambda>r. tenant_id r = utf8 T) rows = [] \<longrightarrow> select_by_tenant rows (Some T) = []"
    by (simp add: select_by_tenant_def same)
  ultimately show ?thesis by blast
qed

theorem list_sorted_by_name_witness:
  "get_organizations no_faults zeta_alpha_mid t1
     = (Sent \<lparr>status = 200, payload = OrganizationsJson
          [org ''o2'' ''t1'' ''Alpha'', org ''o3'' ''t1'' ''Mid'', org ''o1'' ''t1'' ''Zeta'']\<rparr>,
        zeta_alpha_mid) \<and>
   filter (\<lambda>r. tenant_id r = utf8 (ascii ''t2'')) zeta_alpha_mid = [] \<and>
   get_organizations no_faults zeta_alpha_mid t2
     = (Sent \<lparr>status = 200, payload = OrganizationsJson []\<rparr>, zeta_alpha_mid) \<and>
   get_organizations no_faults [lone_created] lone
     = (Sent \<lparr>status = 200, payload = OrganizationsJson [lone_created]\<rparr>, [lone_created])"
proof -
  have a: "tenantId t1 = Some (ascii ''t1'')" and b: "tenantId t2 = Some (ascii ''t2'')"
    and c: "tenantId lone = Some [116, 55296]"
    by (simp_all add: t1_def t2_def lone_def)
  have none: "filter (\<lambda>r. tenant_id r = utf8 (ascii ''t2'')) zeta_alpha_mid = []"
    by (simp add: zeta_alpha_mid_def org_def) (simp add: ascii_def)
  have first: "get_organizations no_faults zeta_alpha_mid t1
     = (Sent \<lparr>status = 200, payload = OrganizationsJson
          [org ''o2'' ''t1'' ''Alpha'', org ''o3'' ''t1'' ''Mid'', org ''o1'' ''t1'' ''Zeta'']\<rparr>,
        zeta_alpha_mid)"
    using list_sorted_by_name [OF a, of zeta_alpha_mid]
    by (simp add: get_organizations_def no_faults_def select_by_tenant_def tenant_is_def
        zeta_alpha_mid_def org_def t1_def ascii_def utf8_def is_surrogate_def)
  from list_sorted_by_name [OF b, of zeta_alpha_mid] none
  have second: "get_organizations no_faults zeta_alpha_mid t2
     = (Sent \<lparr>status = 200, payload = OrganizationsJson []\<rparr>, zeta_alpha_mid)"
    by auto
  have third: "get_organizations no_faults [lone_created] lone
     = (Sent \<lparr>status = 200, payload = OrganizationsJson [lone_created]\<rparr>, [lone_created])"
    using list_sorted_by_name [OF c, of "[lone_created]"]
    by (simp add: get_organizations_def no_faults_def select_by_tenant_def tenant_is_def
        lone_created_def lone_def utf8_def is_surrogate_def)
  from first none second third show ?thesis by (intro conjI)
qed

text \<open>
  C8. A request without an Authorization header, or with an empty one, is rejected
  with HTTP 401 whatever the token verifier is (no token is decoded); a request whose
  token the verifier refuses (malformed, expired, wrong signature) is rejected with
  HTTP 401. In all these cases the answer is the same for every table and every I/O
  oracle, and the table is returned as it was: no statement is executed.
\<close>

theorem auth_rejects_before_store:
  "(authorization req = None \<longrightarrow>
      app verify io uuid now rows req = (unauthorized ''No token provided'', rows) \<and>
      app verify io uuid now rows req = app verify' io uuid now rows req) \<and>
   (authorization req = Some h \<and> h \<noteq> [] \<and> verify (replace_first (ascii ''Bearer '') h) = None \<longrightarrow>
      app verify io uuid now rows req = (unauthorized ''Invalid token'', rows)) \<and>
   status (unauthorized msg) = 401 \<and> is_error_json (payload (unauthorized msg)) \<and>
   (authorization req = Some [] \<longrightarrow>
      app verify io uuid now rows req = (unauthorized ''No token provided'', rows) \<and>
      app verify io uuid now rows req = app verify' io uuid now rows req)"
  by (simp add: app_def auth_def unauthorized_def)

theorem auth_rejects_before_store_witness:
  "app token_is_tenant store_down (ascii ''o9'') noon two_tenants
       \<lparr>authorization = None, route = DeleteOrganization (ascii ''o1'')\<rparr>
     = (unauthorized ''No token provided'', two_tenants) \<and>
   reject_all (replace_first (ascii ''Bearer '') (ascii ''Bearer t1'')) = None \<and>
   app reject_all store_down (ascii ''o9'') noon two_tenants
       \<lparr>authorization = Some (ascii ''Bearer t1''), route = DeleteOrganization (ascii ''o1'')\<rparr>
     = (unauthorized ''Invalid token'', two_tenants) \<and>
   app token_is_tenant store_down (ascii ''o9'') noon two_tenants
       \<lparr>authorization = Some [], route = DeleteOrganization (ascii ''o1'')\<rparr>
     = (unauthorized ''No token provided'', two_tenants)"
  using
    auth_rejects_before_store
      [where req = "\<lparr>authorization = None, route = DeleteOrganization (ascii ''o1'')\<rparr>"
         and verify = token_is_tenant and io = store_down and uuid = "ascii ''o9''" and now = noon
         and rows = two_tenants]
    auth_rejects_before_store
      [where req = "\<lparr>authorization = Some (ascii ''Bearer t1''),
                     route = DeleteOrganization (ascii ''o1'')\<rparr>"
         and h = "ascii ''Bearer t1''" and verify = reject_all and io = store_down
         and uuid = "ascii ''o9''" and now = noon and rows = two_tenants]
    auth_rejects_before_store
      [where req = "\<lparr>authorization = Some [], route = DeleteOrganization (ascii ''o1'')\<rparr>"
         and verify = token_is_tenant and io = store_down and uuid = "ascii ''o9''" and now = noon
         and rows = two_tenants]
  by (simp add: reject_all_def ascii_def)




text \<open>
  C1, as the claim states it: for any two distinct tenant identities T1 and T2, a
  record created under T1 is never returned to T2. It fails for the identities \<open>t\<close>
  followed by the surrogate U+D800 and \<open>t\<close> followed by U+FFFD: they differ, but the
  record the first creates is stored under the second, which then lists, gets and
  deletes it.
\<close>

theorem tenant_isolation_counterexample:
  "tenantId lone \<noteq> tenantId replaced \<and>
   post_organizations no_faults (ascii ''o3'') noon [] lone acme_body
     = (Sent \<lparr>status = 201, payload = OrganizationJson (Some lone_created)\<rparr>, [lone_created]) \<and>
   get_organizations no_faults [lone_created] replaced
     = (Sent \<lparr>status = 200, payload = OrganizationsJson [lone_created]\<rparr>, [lone_created]) \<and>
   get_organization no_faults [lone_created] replaced (ascii ''o3'')
     = (Sent \<lparr>status = 200, payload = OrganizationJson (Some lone_created)\<rparr>, [lone_created]) \<and>
   delete_organization_route no_faults [lone_created] replaced (ascii ''o3'')
     = (Sent \<lparr>status = 200, payload = OkJson\<rparr>, [])"
  by (simp add: lone_def replaced_def lone_created_def org_def acme_body_def noon_def
      post_organizations_def get_organizations_def get_organization_def
      delete_organization_route_def delete_organization_def insert_organization_def
      select_by_id_def select_by_id_tenant_def select_by_tenant_def tenant_is_def
      columns_of_def name_missing_def or_empty_def no_faults_def
      trim_def is_white_space_def ascii_def utf8_def is_surrogate_def)

text \<open>
  C1, amended. Tenant isolation between identities that the store tells apart. Let the
  table hold a record \<open>r\<close> created under identity T1 (its tenant_id is the UTF-8
  encoding of T1), and let a caller with identity T2, whose UTF-8 encoding differs from
  that of T1, issue any request. Every record a response carries belongs to T2, so
  \<open>r\<close> is never returned by list, get, create, update or delete; \<open>r\<close> is still in
  the table afterwards; and get, update and delete on the id of \<open>r\<close> reply exactly as
  they do on an id that is in no row of the table at all, under every I/O oracle: with
  NotFound (HTTP 404) when the store works.
\<close>

theorem tenant_isolation:
  assumes pk: "primary_key rows"
    and r: "r \<in> set rows" "tenant_id r = utf8 T1"
    and tenants: "utf8 T1 \<noteq> utf8 T2" "tenantId u = Some T2"
    and nowhere: "nowhere \<notin> org_id ` set rows"
  shows "(dispatch io uuid now rows u rt = (Sent resp, rows') \<longrightarrow>
            (\<forall>x\<in>set (returned (payload resp)). tenant_id x = utf8 T2) \<and>
            r \<notin> set (returned (payload resp))) \<and>
         r \<in> set (snd (dispatch io uuid now rows u rt)) \<and>
         get_organization io rows u (org_id r) = get_organization io rows u nowhere \<and>
         put_organization io now rows u (org_id r) b = put_organization io now rows u nowhere b \<and>
         delete_organization_route io rows u (org_id r) = delete_organization_route io rows u nowhere \<and>
         get_organization no_faults rows u (org_id r) = (Sent not_found, rows) \<and>
         put_organization no_faults now rows u (org_id r) b = (Sent not_found, rows) \<and>
         delete_organization_route no_faults rows u (org_id r) = (Sent not_found, rows) \<and>
         status not_found = 404"
proof -
  have other: "map_option utf8 (tenantId u) \<noteq> Some (tenant_id r)"
    using r tenants by simp
  have hidden: "select_by_id_tenant rows (org_id r) (tenantId u) = None"
    using pk r(1) other by (rule select_by_id_tenant_other)
  have missing: "select_by_id_tenant rows nowhere (tenantId u) = None"
    using nowhere by (rule select_by_id_tenant_absent)
  have "\<forall>x\<in>set (returned (payload resp)). tenant_id x = utf8 T2"
    if "dispatch io uuid now rows u rt = (Sent resp, rows')"
    using returned_tenant [OF pk tenants(2) that] by blast
  moreover from this have "r \<notin> set (returned (payload resp))"
    if "dispatch io uuid now rows u rt = (Sent resp, rows')"
    using that r(2) tenants(1) by auto
  moreover have "r \<in> set (snd (dispatch io uuid now rows u rt))"
    using r(1) other by (rule foreign_row_kept)
  moreover have "get_organization io rows u (org_id r) = get_organization io rows u nowhere"
    by (simp add: get_organization_def hidden missing)
  moreover have "put_organization io now rows u (org_id r) b = put_organization io now rows u nowhere b"
    by (simp add: put_organization_def hidden missing)
  moreover have "delete_organization_route io rows u (org_id r) = delete_organization_route io rows u nowhere"
    by (simp add: delete_organization_route_def hidden missing)
  moreover have "get_organization no_faults rows u (org_id r) = (Sent not_found, rows)"
    by (simp add: get_organization_def hidden no_faults_def)
  moreover have "put_organization no_faults now rows u (org_id r) b = (Sent not_found, rows)"
    by (simp add: put_organization_def hidden no_faults_def)
  moreover have "delete_organization_route no_faults rows u (org_id r) = (Sent not_found, rows)"
    by (simp add: delete_organization_route_def hidden no_faults_def)
  moreover have "status not_found = 404"
    by (simp add: not_found_def)
  ultimately show ?thesis by blast
qed

theorem tenant_isolation_witness:
  "get_organizations no_faults two_tenants t2
     = (Sent \<lparr>status = 200, payload = OrganizationsJson [org ''o2'' ''t2'' ''Beta'']\<rparr>, two_tenants) \<and>
   org ''o1'' ''t1'' ''Acme'' \<notin> set (returned (OrganizationsJson [org ''o2'' ''t2'' ''Beta''])) \<and>
   get_organization no_faults two_tenants t2 (ascii ''o1'') = (Sent not_found, two_tenants) \<and>
   get_organization no_faults two_tenants t2 (ascii ''o9'') = (Sent not_found, two_tenants) \<and>
   put_organization no_faults noon two_tenants t2 (ascii ''o1'') acme_body = (Sent not_found, two_tenants) \<and>
   put_organization no_faults noon two_tenants t2 (ascii ''o9'') acme_body = (Sent not_found, two_tenants) \<and>
   delete_organization_route no_faults two_tenants t2 (ascii ''o1'') = (Sent not_found, two_tenants) \<and>
   delete_organization_route no_faults two_tenants t2 (ascii ''o9'') = (Sent not_found, two_tenants)"
proof -
  have listed: "dispatch no_faults (ascii ''o3'') noon two_tenants t2 GetOrganizations
     = (Sent \<lparr>status = 200, payload = OrganizationsJson [org ''o2'' ''t2'' ''Beta'']\<rparr>, two_tenants)"
    by (simp add: dispatch_def get_organizations_def no_faults_def select_by_tenant_def
        tenant_is_def two_tenants_def org_def t2_def ascii_def utf8_def is_surrogate_def)
  note inst = tenant_isolation
         [OF two_tenants_facts(1,2,9,10,7,8),
          where io = no_faults and uuid = "ascii ''o3''" and now = noon and rt = GetOrganizations
            and resp = "\<lparr>status = 200, payload = OrganizationsJson [org ''o2'' ''t2'' ''Beta'']\<rparr>"
            and rows' = two_tenants and b = acme_body]
  from inst listed have unlisted:
    "org ''o1'' ''t1'' ''Acme'' \<notin> set (returned (OrganizationsJson [org ''o2'' ''t2'' ''Beta'']))"
    by simp
  from inst listed have iso:
    "get_organization no_faults two_tenants t2 (ascii ''o1'')
       = get_organization no_faults two_tenants t2 (ascii ''o9'')"
    "put_organization no_faults noon two_tenants t2 (ascii ''o1'') acme_body
       = put_organization no_faults noon two_tenants t2 (ascii ''o9'') acme_body"
    "delete_organization_route no_faults two_tenants t2 (ascii ''o1'')
       = delete_organization_route no_faults two_tenants t2 (ascii ''o9'')"
    "get_organization no_faults two_tenants t2 (ascii ''o1'') = (Sent not_found, two_tenants)"
    "put_organization no_faults noon two_tenants t2 (ascii ''o1'') acme_body
       = (Sent not_found, two_tenants)"
    "delete_organization_route no_faults two_tenants t2 (ascii ''o1'') = (Sent not_found, two_tenants)"
    unfolding two_tenants_facts(4) by blast+
  have listed': "get_organizations no_faults two_tenants t2
     = (Sent \<lparr>status = 200, payload = OrganizationsJson [org ''o2'' ''t2'' ''Beta'']\<rparr>, two_tenants)"
    using listed by (simp add: dispatch_def)
  show ?thesis
    using listed' unlisted iso(4) iso(4) [unfolded iso(1)] iso(5) iso(5) [unfolded iso(2)]
      iso(6) iso(6) [unfolded iso(3)]
    by (intro conjI)
qed

text \<open>
  C2, as the claim states it: every update whose name is absent, empty or trims to
  empty fails with InvalidInput (HTTP 400). It fails for an update of an id that is
  not in the table: the reply is NotFound (HTTP 404).
\<close>

theorem missing_name_rejected_counterexample:
  "name_missing blank_body \<and>
   put_organization no_faults noon two_tenants t1 (ascii ''o9'') blank_body
     = (Sent not_found, two_tenants) \<and>
   status not_found = 404 \<and> status name_required = 400"
  by (simp add: name_missing_def blank_body_def trim_def is_white_space_def
      put_organization_def no_faults_def select_by_id_tenant_def tenant_is_def two_tenants_def
      org_def t1_def ascii_def utf8_def is_surrogate_def not_found_def name_required_def)

text \<open>
  C2, amended. Every create whose name is absent, empty or trims to the empty string,
  and every such update that addresses an existing (id, tenant) row, fails with
  InvalidInput (HTTP 400) and leaves the table unchanged. Conversely, a create or an
  update whose name trims to a non-empty string is never answered with HTTP 400.
\<close>

theorem missing_name_rejected:
  "(b ''name'' = None \<or> b ''name'' = Some [] \<or> (\<exists>n. b ''name'' = Some n \<and> trim n = []) \<longrightarrow>
      post_organizations io uuid now rows u b = (Sent name_required, rows) \<and>
      (select_by_id_tenant rows i (tenantId u) = Some existing \<longrightarrow>
         put_organization no_faults now rows u i b = (Sent name_required, rows))) \<and>
   (b ''name'' = Some n \<and> trim n \<noteq> [] \<longrightarrow>
      (fst (post_organizations io uuid now rows u b) = Sent resp \<longrightarrow> status resp \<noteq> 400) \<and>
      (fst (put_organization io now rows u i b) = Sent resp \<longrightarrow> status resp \<noteq> 400)) \<and>
   status name_required = 400 \<and> is_error_json (payload name_required)"
proof (intro conjI impI)
  assume "b ''name'' = None \<or> b ''name'' = Some [] \<or> (\<exists>n. b ''name'' = Some n \<and> trim n = [])"
  then have missing: "name_missing b" by (simp add: name_missing_iff)
  then show "post_organizations io uuid now rows u b = (Sent name_required, rows)"
    by (simp add: post_organizations_def)
  assume "select_by_id_tenant rows i (tenantId u) = Some existing"
  with missing show "put_organization no_faults now rows u i b = (Sent name_required, rows)"
    by (simp add: put_organization_def no_faults_def)
next
  assume "b ''name'' = Some n \<and> trim n \<noteq> []"
  then have present: "\<not> name_missing b" by (simp add: name_present)
  then show "status resp \<noteq> 400" if "fst (post_organizations io uuid now rows u b) = Sent resp"
    using that by (auto simp: post_organizations_def split: if_splits sum.splits)
  from present show "status resp \<noteq> 400" if "fst (put_organization io now rows u i b) = Sent resp"
    using that
    by (auto simp: put_organization_def Let_def not_found_def split: if_splits option.splits)
next
  show "status name_required = 400" "is_error_json (payload name_required)"
    by (simp_all add: name_required_def)
qed

theorem missing_name_rejected_witness:
  "blank_body ''name'' = Some [32, 9, 160, 8195] \<and> trim [32, 9, 160, 8195] = [] \<and>
   post_organizations no_faults (ascii ''o3'') noon two_tenants t1 blank_body
     = (Sent name_required, two_tenants) \<and>
   select_by_id_tenant two_tenants (ascii ''o1'') (tenantId t1) = Some (org ''o1'' ''t1'' ''Acme'') \<and>
   put_organization no_faults noon two_tenants t1 (ascii ''o1'') blank_body
     = (Sent name_required, two_tenants) \<and>
   acme_body ''name'' = Some (ascii '' Acme AB '') \<and> trim (ascii '' Acme AB '') = ascii ''Acme AB'' \<and>
   fst (put_organization no_faults noon two_tenants t1 (ascii ''o9'') acme_body) = Sent not_found \<and>
   status not_found \<noteq> 400"
proof -
  have blank: "blank_body ''name'' = Some [32, 9, 160, 8195]" "trim [32, 9, 160, 8195] = []"
    by (simp_all add: blank_body_def trim_def is_white_space_def)
  have acme: "acme_body ''name'' = Some (ascii '' Acme AB '')"
    "trim (ascii '' Acme AB '') = ascii ''Acme AB''" "ascii ''Acme AB'' \<noteq> []"
    by (simp_all add: acme_body_def trim_def is_white_space_def ascii_def)
  have present:
    "select_by_id_tenant two_tenants (ascii ''o1'') (tenantId t1) = Some (org ''o1'' ''t1'' ''Acme'')"
    by (simp add: select_by_id_tenant_def tenant_is_def two_tenants_def org_def t1_def ascii_def utf8_def is_surrogate_def)
  have answered:
    "fst (put_organization no_faults noon two_tenants t1 (ascii ''o9'') acme_body) = Sent not_found"
    by (simp add: put_organization_def no_faults_def select_by_id_tenant_def tenant_is_def
        two_tenants_def org_def t1_def ascii_def utf8_def is_surrogate_def)
  from missing_name_rejected
         [where b = blank_body and io = no_faults and uuid = "ascii ''o3''" and now = noon
            and rows = two_tenants and u = t1 and i = "ascii ''o1''"
            and existing = "org ''o1'' ''t1'' ''Acme''"]
       blank present
  have rejected:
    "post_organizations no_faults (ascii ''o3'') noon two_tenants t1 blank_body
       = (Sent name_required, two_tenants)"
    "put_organization no_faults noon two_tenants t1 (ascii ''o1'') blank_body
       = (Sent name_required, two_tenants)"
    by simp_all
  from missing_name_rejected
         [where b = acme_body and n = "ascii '' Acme AB ''" and io = no_faults and now = noon
            and rows = two_tenants and u = t1 and i = "ascii ''o9''" and resp = not_found]
       acme answered
  have "status not_found \<noteq> 400"
    by simp
  with blank rejected present acme(1,2) answered show ?thesis
    by (intro conjI)
qed

text \<open>
  C3. A successful update (the row exists under the caller's tenant and the name trims
  non-empty) answers with the stored record: id, tenant_id and created_at are those of
  the old record, updated_at is the update time, and each mutable field is replaced by
  what the request binds, as the store encodes it: the trimmed name and, for every
  optional field, the supplied value, the empty string when none is supplied; no
  other row changes. A member of the body under any other key, such as \<open>tenant_id\<close>,
  changes nothing in update or create, and the tenant_id of a created record is the
  caller's identity, as the store encodes it.
\<close>

theorem update_frame:
  "(primary_key rows \<and> select_by_id_tenant rows i (tenantId u) = Some old \<and>
    b ''name'' = Some n \<and> trim n \<noteq> [] \<longrightarrow>
      (let new = old\<lparr>name := utf8 (trim n),
                     org_number := utf8 (or_empty (b ''org_number'')),
                     address := utf8 (or_empty (b ''address'')),
                     city := utf8 (or_empty (b ''city'')),
                     zip_code := utf8 (or_empty (b ''zip'')),
                     phone := utf8 (or_empty (b ''phone'')),
                     email := utf8 (or_empty (b ''email'')),
                     website := utf8 (or_empty (b ''website'')),
                     description := utf8 (or_empty (b ''description'')),
                     updated_at := Some now\<rparr>
       in put_organization no_faults now rows u i b
            = (Sent \<lparr>status = 200, payload = OrganizationJson (Some new)\<rparr>,
               map (\<lambda>r. if r = old then new else r) rows) \<and>
          org_id new = org_id old \<and> tenant_id new = tenant_id old \<and>
          created_at new = created_at old \<and> updated_at new = Some now)) \<and>
   utf8 (or_empty None) = [] \<and>
   (k \<notin> {''name'', ''org_number'', ''address'', ''city'', ''zip'', ''phone'', ''email'',
          ''website'', ''description''} \<longrightarrow>
      put_organization io now rows u i (b(k \<mapsto> v)) = put_organization io now rows u i b \<and>
      post_organizations io uuid now rows u (b(k \<mapsto> v)) = post_organizations io uuid now rows u b) \<and>
   (post_organizations io uuid now rows u b
      = (Sent \<lparr>status = 201, payload = OrganizationJson (Some created)\<rparr>, rows') \<longrightarrow>
      map_option utf8 (tenantId u) = Some (tenant_id created))"
proof (intro conjI impI)
  assume a: "primary_key rows \<and> select_by_id_tenant rows i (tenantId u) = Some old \<and>
    b ''name'' = Some n \<and> trim n \<noteq> []"
  then have present: "\<not> name_missing b" by (simp add: name_present)
  have new: "set_columns (columns_of i b) now old
      = old\<lparr>name := utf8 (trim n),
                     org_number := utf8 (or_empty (b ''org_number'')),
                     address := utf8 (or_empty (b ''address'')),
                     city := utf8 (or_empty (b ''city'')),
                     zip_code := utf8 (or_empty (b ''zip'')),
                     phone := utf8 (or_empty (b ''phone'')),
                     email := utf8 (or_empty (b ''email'')),
                     website := utf8 (or_empty (b ''website'')),
                     description := utf8 (or_empty (b ''description'')),
                     updated_at := Some now\<rparr>"
    using a by (simp add: set_columns_def columns_of_def or_empty_def)
  from a present put_organization_success [of rows i u old b now]
  show "let new = old\<lparr>name := utf8 (trim n),
                     org_number := utf8 (or_empty (b ''org_number'')),
                     address := utf8 (or_empty (b ''address'')),
                     city := utf8 (or_empty (b ''city'')),
                     zip_code := utf8 (or_empty (b ''zip'')),
                     phone := utf8 (or_empty (b ''phone'')),
                     email := utf8 (or_empty (b ''email'')),
                     website := utf8 (or_empty (b ''website'')),
                     description := utf8 (or_empty (b ''description'')),
                     updated_at := Some now\<rparr>
       in put_organization no_faults now rows u i b
            = (Sent \<lparr>status = 200, payload = OrganizationJson (Some new)\<rparr>,
               map (\<lambda>r. if r = old then new else r) rows) \<and>
          org_id new = org_id old \<and> tenant_id new = tenant_id old \<and>
          created_at new = created_at old \<and> updated_at new = Some now"
    by (simp add: new Let_def)
next
  show "utf8 (or_empty None) = []" by (simp add: or_empty_def)
next
  assume k: "k \<notin> {''name'', ''org_number'', ''address'', ''city'', ''zip'', ''phone'', ''email'',
          ''website'', ''description''}"
  note same = columns_of_other_key [OF k]
  show "put_organization io now rows u i (b(k \<mapsto> v)) = put_organization io now rows u i b"
    by (simp only: put_organization_def same)
  show "post_organizations io uuid now rows u (b(k \<mapsto> v)) = post_organizations io uuid now rows u b"
    by (simp only: post_organizations_def same)
next
  assume "post_organizations io uuid now rows u b
      = (Sent \<lparr>status = 201, payload = OrganizationJson (Some created)\<rparr>, rows')"
  then show "map_option utf8 (tenantId u) = Some (tenant_id created)"
    by (auto simp: post_organizations_def insert_organization_def name_required_def
        select_by_id_insert columns_of_def
        split: if_splits option.splits)
qed

theorem update_frame_witness:
  "put_organization no_faults noon acme_table t1 (ascii ''o1'') acme_body
     = (Sent \<lparr>status = 200, payload = OrganizationJson (Some acme_updated)\<rparr>,
        [acme_updated, org ''o2'' ''t2'' ''Beta'']) \<and>
   org_number acme_old = ascii ''556677-8899'' \<and> org_number acme_updated = [] \<and>
   tenant_id acme_updated = ascii ''t1'' \<and>
   put_organization no_faults noon acme_table t1 (ascii ''o1'') forged_body
     = put_organization no_faults noon acme_table t1 (ascii ''o1'') acme_body \<and>
   post_organizations no_faults (ascii ''o3'') noon acme_table t1 forged_body
     = post_organizations no_faults (ascii ''o3'') noon acme_table t1 acme_body \<and>
   put_organization no_faults noon acme_table t1 (ascii ''o1'') odd_body
     = (Sent \<lparr>status = 200, payload = OrganizationJson (Some odd_updated)\<rparr>,
        [odd_updated, org ''o2'' ''t2'' ''Beta''])"
proof -
  note inst = update_frame
    [where rows = acme_table and i = "ascii ''o1''" and u = t1 and old = acme_old
       and b = acme_body and n = "ascii '' Acme AB ''" and now = noon and k = "''tenant_id''"
       and v = "ascii ''t2''" and io = no_faults and uuid = "ascii ''o3''"]
  have rows: "map (\<lambda>r. if r = acme_old then acme_updated else r) acme_table
                = [acme_updated, org ''o2'' ''t2'' ''Beta'']"
    by (simp add: acme_table_def acme_old_def org_def ascii_def)
  from inst acme_table_facts(1-4)
  have "put_organization no_faults noon acme_table t1 (ascii ''o1'') acme_body
     = (Sent \<lparr>status = 200, payload = OrganizationJson (Some acme_updated)\<rparr>,
        [acme_updated, org ''o2'' ''t2'' ''Beta''])"
    by (simp add: Let_def acme_updated_eq rows)
  moreover from inst
  have "put_organization no_faults noon acme_table t1 (ascii ''o1'') forged_body
     = put_organization no_faults noon acme_table t1 (ascii ''o1'') acme_body"
    "post_organizations no_faults (ascii ''o3'') noon acme_table t1 forged_body
     = post_organizations no_faults (ascii ''o3'') noon acme_table t1 acme_body"
    by (simp_all add: forged_body_def)
  moreover have "org_number acme_old = ascii ''556677-8899''" "org_number acme_updated = []"
    "tenant_id acme_updated = ascii ''t1''"
    by (simp_all add: acme_old_def acme_updated_def org_def)
  moreover have "put_organization no_faults noon acme_table t1 (ascii ''o1'') odd_body
     = (Sent \<lparr>status = 200, payload = OrganizationJson (Some odd_updated)\<rparr>,
        [odd_updated, org ''o2'' ''t2'' ''Beta''])"
    using update_frame
      [where rows = acme_table and i = "ascii ''o1''" and u = t1 and old = acme_old
         and b = odd_body and n = "[97, 55296, 98]" and now = noon]
    by (simp add: put_organization_def no_faults_def select_by_id_tenant_def select_by_id_def
        update_organization_def set_columns_def columns_of_def name_missing_def or_empty_def
        tenant_is_def acme_table_def acme_old_def odd_updated_def org_def t1_def odd_body_def
        trim_def is_white_space_def ascii_def utf8_def is_surrogate_def Let_def)
  ultimately show ?thesis by (intro conjI)
qed

text \<open>
  C4, as the claim states it: the record a create under tenant T returns has tenant_id
  equal to T. It fails for the identity \<open>t\<close> followed by the surrogate U+D800: the
  record is created, and its tenant_id is \<open>t\<close> followed by U+FFFD.
\<close>

theorem create_then_get_counterexample:
  "tenantId lone = Some [116, 55296] \<and>
   post_organizations no_faults (ascii ''o3'') noon acme_table lone acme_body
     = (Sent \<lparr>status = 201, payload = OrganizationJson (Some lone_created)\<rparr>,
        acme_table @ [lone_created]) \<and>
   tenant_id lone_created \<noteq> [116, 55296]"
  by (simp add: lone_def lone_created_def org_def acme_body_def noon_def acme_table_def
      acme_old_def post_organizations_def insert_organization_def select_by_id_def
      columns_of_def name_missing_def or_empty_def no_faults_def
      trim_def is_white_space_def ascii_def utf8_def is_surrogate_def)

text \<open>
  C4, amended. Round trip. A create under tenant T with a name that trims non-empty and
  an id that \<open>uuidv4()\<close> has not produced before answers 201 with the stored record:
  the generated id, tenant_id the UTF-8 encoding of T (T itself unless it holds a
  surrogate outside a pair), the encoded trimmed name and optional values, every
  unsupplied optional field empty, updated_at null; a get under T with that id, right
  after, answers 200 with the same record. A create answered with 201 always has an
  id that was in no row.
\<close>

theorem create_then_get:
  "(b ''name'' = Some n \<and> trim n \<noteq> [] \<and> tenantId u = Some T \<and> uuid \<notin> org_id ` set rows \<longrightarrow>
      (let created =
             \<lparr>org_id = uuid, tenant_id = utf8 T, name = utf8 (trim n),
              org_number = utf8 (or_empty (b ''org_number'')),
              address = utf8 (or_empty (b ''address'')),
              city = utf8 (or_empty (b ''city'')),
              zip_code = utf8 (or_empty (b ''zip'')),
              phone = utf8 (or_empty (b ''phone'')),
              email = utf8 (or_empty (b ''email'')),
              website = utf8 (or_empty (b ''website'')),
              description = utf8 (or_empty (b ''description'')),
              created_at = now, updated_at = None\<rparr>
       in post_organizations no_faults uuid now rows u b
            = (Sent \<lparr>status = 201, payload = OrganizationJson (Some created)\<rparr>, rows @ [created]) \<and>
          get_organization no_faults (rows @ [created]) u uuid
            = (Sent \<lparr>status = 200, payload = OrganizationJson (Some created)\<rparr>, rows @ [created]))) \<and>
   utf8 (or_empty None) = [] \<and>
   (\<forall>c\<in>set T. \<not> is_surrogate c) = (utf8 T = T) \<and>
   (post_organizations io uuid now rows u b = (Sent resp, rows') \<and> status resp = 201 \<longrightarrow>
      uuid \<notin> org_id ` set rows)"
proof (intro conjI impI)
  assume a: "b ''name'' = Some n \<and> trim n \<noteq> [] \<and> tenantId u = Some T \<and> uuid \<notin> org_id ` set rows"
  then have present: "\<not> name_missing b" by (simp add: name_present)
  define created where "created =
             \<lparr>org_id = uuid, tenant_id = utf8 T, name = utf8 (trim n),
              org_number = utf8 (or_empty (b ''org_number'')),
              address = utf8 (or_empty (b ''address'')),
              city = utf8 (or_empty (b ''city'')),
              zip_code = utf8 (or_empty (b ''zip'')),
              phone = utf8 (or_empty (b ''phone'')),
              email = utf8 (or_empty (b ''email'')),
              website = utf8 (or_empty (b ''website'')),
              description = utf8 (or_empty (b ''description'')),
              created_at = now, updated_at = None\<rparr>"
  have ins: "insert_organization rows now (columns_of uuid b) (tenantId u) = Inr (rows @ [created])"
    using a by (auto simp: insert_organization_def columns_of_def created_def or_empty_def)
  have ids: "org_id created = uuid" "tenant_id created = utf8 T"
    by (simp_all add: created_def)
  have "post_organizations no_faults uuid now rows u b
          = (Sent \<lparr>status = 201, payload = OrganizationJson (Some created)\<rparr>, rows @ [created])"
    using a present ins ids by (simp add: post_organizations_def no_faults_def select_by_id_insert)
  moreover have "get_organization no_faults (rows @ [created]) u uuid
          = (Sent \<lparr>status = 200, payload = OrganizationJson (Some created)\<rparr>, rows @ [created])"
    using a ids by (simp add: get_organization_def no_faults_def select_by_id_tenant_insert)
  ultimately show "let created =
             \<lparr>org_id = uuid, tenant_id = utf8 T, name = utf8 (trim n),
              org_number = utf8 (or_empty (b ''org_number'')),
              address = utf8 (or_empty (b ''address'')),
              city = utf8 (or_empty (b ''city'')),
              zip_code = utf8 (or_empty (b ''zip'')),
              phone = utf8 (or_empty (b ''phone'')),
              email = utf8 (or_empty (b ''email'')),
              website = utf8 (or_empty (b ''website'')),
              description = utf8 (or_empty (b ''description'')),
              created_at = now, updated_at = None\<rparr>
       in post_organizations no_faults uuid now rows u b
            = (Sent \<lparr>status = 201, payload = OrganizationJson (Some created)\<rparr>, rows @ [created]) \<and>
          get_organization no_faults (rows @ [created]) u uuid
            = (Sent \<lparr>status = 200, payload = OrganizationJson (Some created)\<rparr>, rows @ [created])"
    by (simp add: created_def Let_def)
next
  show "utf8 (or_empty None) = []" by (simp add: or_empty_def)
next
  show "(\<forall>c\<in>set T. \<not> is_surrogate c) = (utf8 T = T)"
    by (induction T) (auto simp: utf8_def is_surrogate_def)
next
  assume "post_organizations io uuid now rows u b = (Sent resp, rows') \<and> status resp = 201"
  then show "uuid \<notin> org_id ` set rows"
    by (auto simp: post_organizations_def insert_organization_def name_required_def
        columns_of_def split: if_splits option.splits)
qed

theorem create_then_get_witness:
  "post_organizations no_faults (ascii ''o3'') noon acme_table t1 acme_body
     = (Sent \<lparr>status = 201, payload = OrganizationJson (Some acme_created)\<rparr>,
        acme_table @ [acme_created]) \<and>
   get_organization no_faults (acme_table @ [acme_created]) t1 (ascii ''o3'')
     = (Sent \<lparr>status = 200, payload = OrganizationJson (Some acme_created)\<rparr>,
        acme_table @ [acme_created]) \<and>
   tenant_id acme_created = ascii ''t1'' \<and> org_number acme_created = [] \<and>
   updated_at acme_created = None \<and> ascii ''o3'' \<notin> set (map org_id acme_table)"
proof -
  note inst = create_then_get
    [where b = acme_body and n = "ascii '' Acme AB ''" and u = t1 and T = "ascii ''t1''"
       and uuid = "ascii ''o3''" and rows = acme_table and now = noon and io = no_faults
       and resp = "\<lparr>status = 201, payload = OrganizationJson (Some acme_created)\<rparr>"
       and rows' = "acme_table @ [acme_created]"]
  from inst acme_table_facts(3-6)
  have round: "post_organizations no_faults (ascii ''o3'') noon acme_table t1 acme_body
     = (Sent \<lparr>status = 201, payload = OrganizationJson (Some acme_created)\<rparr>,
        acme_table @ [acme_created])"
    "get_organization no_faults (acme_table @ [acme_created]) t1 (ascii ''o3'')
     = (Sent \<lparr>status = 200, payload = OrganizationJson (Some acme_created)\<rparr>,
        acme_table @ [acme_created])"
    by (simp_all add: Let_def acme_created_eq)
  from inst round(1) have "ascii ''o3'' \<notin> set (map org_id acme_table)"
    by simp
  moreover have "tenant_id acme_created = ascii ''t1''" "org_number acme_created = []"
    "updated_at acme_created = None"
    by (simp_all add: acme_created_def org_def)
  ultimately show ?thesis using round by (intro conjI)
qed

text \<open>
  C5. Update is idempotent in effect: applying the same valid update twice to an
  existing record stores, the second time, the record of the first time with only
  updated_at changed, and no other row differs.
\<close>

theorem update_idempotent:
  assumes "primary_key rows" "select_by_id_tenant rows i (tenantId u) = Some old"
    "b ''name'' = Some n" "trim n \<noteq> []"
  shows "\<exists>stored rows1 rows2.
           put_organization no_faults now1 rows u i b
             = (Sent \<lparr>status = 200, payload = OrganizationJson (Some stored)\<rparr>, rows1) \<and>
           put_organization no_faults now2 rows1 u i b
             = (Sent \<lparr>status = 200,
                      payload = OrganizationJson (Some (stored\<lparr>updated_at := Some now2\<rparr>))\<rparr>, rows2) \<and>
           rows2 = map (\<lambda>r. if r = stored then stored\<lparr>updated_at := Some now2\<rparr> else r) rows1 \<and>
           map (\<lambda>r. r\<lparr>updated_at := None\<rparr>) rows2 = map (\<lambda>r. r\<lparr>updated_at := None\<rparr>) rows1"
proof -
  let ?v = "columns_of i b"
  let ?stored = "set_columns ?v now1 old"
  let ?rows1 = "map (\<lambda>r. if r = old then ?stored else r) rows"
  let ?rows2 = "map (\<lambda>r. if r = ?stored then ?stored\<lparr>updated_at := Some now2\<rparr> else r) ?rows1"
  have present: "\<not> name_missing b"
    using assms(3,4) by (rule name_present)
  have rows1: "?rows1 = update_organization rows now1 ?v i (tenantId u)"
    using assms(1,2) by (simp add: update_organization_eq)
  have pk1: "primary_key ?rows1"
    unfolding rows1 using assms(1) by (rule primary_key_update)
  have sel1: "select_by_id_tenant ?rows1 i (tenantId u) = Some ?stored"
    unfolding rows1 using assms(1,2) by (rule select_by_id_tenant_update)
  have again: "set_columns ?v now2 ?stored = ?stored\<lparr>updated_at := Some now2\<rparr>"
    by (simp add: set_columns_def)
  have first: "put_organization no_faults now1 rows u i b
      = (Sent \<lparr>status = 200, payload = OrganizationJson (Some ?stored)\<rparr>, ?rows1)"
    using assms(1,2) present by (rule put_organization_success)
  have second: "put_organization no_faults now2 ?rows1 u i b
      = (Sent \<lparr>status = 200, payload = OrganizationJson (Some (?stored\<lparr>updated_at := Some now2\<rparr>))\<rparr>,
         ?rows2)"
    using put_organization_success [OF pk1 sel1 present, of now2] by (simp only: again)
  have same: "map (\<lambda>r. r\<lparr>updated_at := None\<rparr>) ?rows2 = map (\<lambda>r. r\<lparr>updated_at := None\<rparr>) ?rows1"
    by (simp add: comp_def)
  from first second same show ?thesis by blast
qed

theorem update_idempotent_witness:
  "put_organization no_faults noon acme_table t1 (ascii ''o1'') acme_body
     = (Sent \<lparr>status = 200, payload = OrganizationJson (Some acme_updated)\<rparr>,
        [acme_updated, org ''o2'' ''t2'' ''Beta'']) \<and>
   put_organization no_faults later [acme_updated, org ''o2'' ''t2'' ''Beta''] t1 (ascii ''o1'') acme_body
     = (Sent \<lparr>status = 200,
              payload = OrganizationJson (Some (acme_updated\<lparr>updated_at := Some later\<rparr>))\<rparr>,
        [acme_updated\<lparr>updated_at := Some later\<rparr>, org ''o2'' ''t2'' ''Beta''])"
  using update_idempotent
    [where rows = acme_table and i = "ascii ''o1''" and u = t1 and old = acme_old
       and b = acme_body and n = "ascii '' Acme AB ''" and ?now1.0 = noon and ?now2.0 = later,
     OF acme_table_facts(1-4)]
  by (simp add: put_organization_def no_faults_def select_by_id_tenant_def select_by_id_def
      update_organization_def set_columns_def columns_of_def name_missing_def or_empty_def
      tenant_is_def acme_table_def acme_old_def acme_updated_def org_def t1_def acme_body_def
      trim_def is_white_space_def ascii_def utf8_def is_surrogate_def noon_def later_def Let_def)

end
